theory Spec2Isabelle
  imports Complex_Main "HOL-Library.Word"
begin

section \<open>Motor helpers of core/movements.py\<close>

text \<open>
  The GPIO chip is a store from pin numbers to the PWM duty cycle and the output level
  last written to the pin. \<open>lgpio.tx_pwm\<close> and \<open>lgpio.gpio_write\<close> are writes
  to that store; \<open>time.sleep\<close> changes nothing in it.
\<close>

record gpio =
  pwm_duty :: "nat \<Rightarrow> int"
  level :: "nat \<Rightarrow> int"

definition tx_pwm :: "nat \<Rightarrow> int \<Rightarrow> gpio \<Rightarrow> gpio" where
  "tx_pwm pin duty g = g\<lparr>pwm_duty := (pwm_duty g)(pin := duty)\<rparr>"

definition gpio_write :: "nat \<Rightarrow> int \<Rightarrow> gpio \<Rightarrow> gpio" where
  "gpio_write pin v g = g\<lparr>level := (level g)(pin := v)\<rparr>"

definition MOUTH_IN1 :: nat where "MOUTH_IN1 = 12"
definition MOUTH_IN2 :: nat where "MOUTH_IN2 = 5"
definition HEAD_IN1 :: nat where "HEAD_IN1 = 13"
definition HEAD_IN2 :: nat where "HEAD_IN2 = 6"
definition TAIL_IN1 :: nat where "TAIL_IN1 = 19"
definition TAIL_IN2 :: nat where "TAIL_IN2 = 26"

definition DEFAULT_HEAD_SPEED :: int where "DEFAULT_HEAD_SPEED = 80"
definition DEFAULT_TAIL_SPEED :: int where "DEFAULT_TAIL_SPEED = 80"

text \<open>\<open>brake_motor(pin1, pin2)\<close>: both PWM outputs to duty 0, both pins low.\<close>

definition brake_motor :: "nat \<Rightarrow> nat \<Rightarrow> gpio \<Rightarrow> gpio" where
  "brake_motor pin1 pin2 g =
     gpio_write pin2 0 (gpio_write pin1 0 (tx_pwm pin2 0 (tx_pwm pin1 0 g)))"

text \<open>\<open>run_motor(pwm_pin, low_pin, speed_percent, duration, brake)\<close>.\<close>

definition run_motor :: "nat \<Rightarrow> nat \<Rightarrow> int \<Rightarrow> real \<Rightarrow> bool \<Rightarrow> gpio \<Rightarrow> gpio" where
  "run_motor pwm_pin low_pin speed_percent duration brake g =
     (let g1 = gpio_write low_pin 0 g;
          g2 = tx_pwm pwm_pin speed_percent g1
      in if brake then brake_motor pwm_pin low_pin g2 else g2)"

definition move_mouth :: "int \<Rightarrow> real \<Rightarrow> bool \<Rightarrow> gpio \<Rightarrow> gpio" where
  "move_mouth speed_percent duration brake g =
     run_motor MOUTH_IN1 MOUTH_IN2 speed_percent duration brake g"

definition stop_mouth :: "gpio \<Rightarrow> gpio" where
  "stop_mouth g = brake_motor MOUTH_IN1 MOUTH_IN2 g"

text \<open>
  The module state of movements.py: the GPIO store, the \<open>head_out\<close> flag and the three
  mouth-sync globals \<open>_last_flap\<close>, \<open>_mouth_open_until\<close>, \<open>_last_rms\<close>.
\<close>

record movements =
  hw :: gpio
  head_out :: bool
  last_flap :: real
  mouth_open_until :: real
  last_rms :: real

text \<open>
  \<open>move_head(state)\<close>. The "on" branch starts a thread that ramps the head out and then
  holds it at full duty; the writes of that thread are applied in program order.
\<close>

definition move_head_on_thread :: "gpio \<Rightarrow> gpio" where
  "move_head_on_thread g =
     tx_pwm HEAD_IN1 100 (tx_pwm HEAD_IN1 DEFAULT_HEAD_SPEED (gpio_write HEAD_IN2 0 g))"

definition move_head :: "string \<Rightarrow> movements \<Rightarrow> movements" where
  "move_head state m =
     (if state = ''on''
      then (if head_out m then m
            else m\<lparr>hw := move_head_on_thread (hw m), head_out := True\<rparr>)
      else m\<lparr>hw := brake_motor HEAD_IN1 HEAD_IN2 (hw m), head_out := False\<rparr>)"

section \<open>Mouth sync: flap_from_pcm_chunk\<close>

text \<open>
  A chunk is the array of 16-bit samples that the worker builds with
  \<open>np.frombuffer(..., dtype=np.int16)\<close>. Its RMS,
  \<open>np.sqrt(np.mean(audio.astype(np.float32) ** 2))\<close>, is computed by numpy in
  \<open>float32\<close>, with numpy's rounding and order of summation. That is numpy's code and
  not the repository's, so it is a parameter \<open>np_rms\<close>: the \<open>float32\<close> number that
  numpy returns for the chunk, as a real. What \<open>flap_from_pcm_chunk\<close> then does with
  the value (a product with 1, a sum with 0, comparisons, a division by the power of two
  32768) is exact on floats. The calls the function makes to the mouth motor are
  returned beside the new module state.
\<close>

type_synonym pcm = "16 word list"

datatype mouth_call = Move_mouth int real bool | Stop_mouth

definition np_clip :: "real \<Rightarrow> real \<Rightarrow> real \<Rightarrow> real" where
  "np_clip x lo hi = min (max x lo) hi"

text \<open>\<open>np.interp(x, [x0, x1], [y0, y1])\<close> with \<open>x0 < x1\<close>: constant outside the nodes.\<close>

definition np_interp :: "real \<Rightarrow> real \<Rightarrow> real \<Rightarrow> real \<Rightarrow> real \<Rightarrow> real" where
  "np_interp x x0 x1 y0 y1 =
     (if x \<le> x0 then y0
      else if x1 \<le> x then y1
      else y0 + (x - x0) * (y1 - y0) / (x1 - x0))"

text \<open>Python's \<open>int()\<close> on a float truncates towards zero.\<close>

definition py_int :: "real \<Rightarrow> int" where
  "py_int r = (if 0 \<le> r then \<lfloor>r\<rfloor> else \<lceil>r\<rceil>)"

text \<open>
  The smoothing step \<open>rms = alpha * rms + (1 - alpha) * _last_rms\<close> with the source's
  \<open>alpha = 1\<close>. (The guard \<open>'_last_rms' not in globals()\<close> is never true: the module
  defines the global.)
\<close>

definition smoothed_rms :: "real \<Rightarrow> movements \<Rightarrow> real" where
  "smoothed_rms rms m = (let alpha = 1 in alpha * rms + (1 - alpha) * last_rms m)"

definition flap_from_pcm_chunk ::
  "(pcm \<Rightarrow> real) \<Rightarrow> movements \<Rightarrow> real \<Rightarrow> pcm \<Rightarrow> real \<Rightarrow> real \<Rightarrow> real
     \<Rightarrow> movements \<times> mouth_call list" where
  "flap_from_pcm_chunk np_rms m now audio threshold min_flap_gap chunk_ms =
     (if audio = [] then (m, [])
      else
        let r = smoothed_rms (np_rms audio) m;
            m1 = m\<lparr>last_rms := r\<rparr>
        in if r < threshold / 2 \<and> mouth_open_until m1 \<le> now
           then (m1\<lparr>hw := stop_mouth (hw m1)\<rparr>, [Stop_mouth])
           else if r \<le> threshold \<or> now - last_flap m1 < min_flap_gap
           then (m1, [])
           else
             let normalized = np_clip (r / 32768) 0 1;
                 speed = py_int (np_clip (np_interp normalized 0.005 0.15 25 100) 25 100);
                 duration_ms = np_clip (np_interp normalized 0.005 0.15 15 70) 15 chunk_ms;
                 duration = duration_ms / 1000;
                 m2 = m1\<lparr>last_flap := now, mouth_open_until := now + duration\<rparr>
             in (m2\<lparr>hw := move_mouth speed duration False (hw m2)\<rparr>,
                 [Move_mouth speed duration False]))"

text \<open>The module state at import: all pins claimed and written low, the globals zero.\<close>

definition gpio0 :: gpio where
  "gpio0 = \<lparr>pwm_duty = (\<lambda>_. 0), level = (\<lambda>_. 0)\<rparr>"

definition movements0 :: movements where
  "movements0 = \<lparr>hw = gpio0, head_out = False, last_flap = 0, mouth_open_until = 0,
                  last_rms = 0\<rparr>"

section \<open>The playback queue (queue.Queue as audio_playback.py uses it)\<close>

datatype py_error = TypeError | ValueError | IndexError | NameError | ZeroDivisionError
  | QueueEmpty

text \<open>
  A \<open>queue.Queue\<close>: the FIFO of items not yet taken and the counter
  \<open>unfinished_tasks\<close>, raised by \<open>put\<close> and lowered by \<open>task_done\<close>.
\<close>

record 'a py_queue =
  queue :: "'a list"
  unfinished_tasks :: nat

definition put :: "'a \<Rightarrow> 'a py_queue \<Rightarrow> 'a py_queue" where
  "put x q = q\<lparr>queue := queue q @ [x], unfinished_tasks := unfinished_tasks q + 1\<rparr>"

definition get_nowait :: "'a py_queue \<Rightarrow> py_error + 'a \<times> 'a py_queue" where
  "get_nowait q = (case queue q of [] \<Rightarrow> Inl QueueEmpty | x # xs \<Rightarrow> Inr (x, q\<lparr>queue := xs\<rparr>))"

definition task_done :: "'a py_queue \<Rightarrow> py_error + 'a py_queue" where
  "task_done q =
     (if unfinished_tasks q = 0 then Inl ValueError
      else Inr (q\<lparr>unfinished_tasks := unfinished_tasks q - 1\<rparr>))"

definition queue_empty :: "'a py_queue \<Rightarrow> bool" where
  "queue_empty q = (queue q = [])"

text \<open>\<open>Queue.join()\<close> returns when \<open>unfinished_tasks\<close> is zero.\<close>

definition join_returns :: "'a py_queue \<Rightarrow> bool" where
  "join_returns q = (unfinished_tasks q = 0)"

text \<open>
  The flush loop shared by \<open>stop_playback\<close> and the barge-in branch of
  \<open>handle_message\<close>: take an item and mark it done until the queue is empty; an
  exception (\<open>task_done\<close> called too often) breaks the loop.
\<close>

fun flush_loop :: "'a list \<Rightarrow> nat \<Rightarrow> 'a list \<times> nat" where
  "flush_loop [] u = ([], u)"
| "flush_loop (x # xs) u = (if u = 0 then (xs, u) else flush_loop xs (u - 1))"

definition flush_queue :: "'a py_queue \<Rightarrow> 'a py_queue" where
  "flush_queue q =
     (case flush_loop (queue q) (unfinished_tasks q) of
        (xs, u) \<Rightarrow> q\<lparr>queue := xs, unfinished_tasks := u\<rparr>)"

subsection \<open>Producer, worker and waiter as interleaved events\<close>

text \<open>
  The worker thread takes one item (\<open>playback_queue.get()\<close>), processes it and then
  calls \<open>task_done()\<close>. \<open>in_flight\<close> is the item the worker holds in between and
  \<open>played\<close> lists the items whose processing has completed, oldest first. An event
  that is not enabled (the worker taking from an empty queue blocks) yields \<open>None\<close>.
\<close>

record 'a playback =
  pq :: "'a py_queue"
  in_flight :: "'a option"
  played :: "'a list"

datatype 'a event = Put 'a | Worker_get | Worker_done

fun step :: "'a event \<Rightarrow> 'a playback \<Rightarrow> 'a playback option" where
  "step (Put x) s = Some (s\<lparr>pq := put x (pq s)\<rparr>)"
| "step Worker_get s =
     (case in_flight s of
        Some _ \<Rightarrow> None
      | None \<Rightarrow>
          (case get_nowait (pq s) of
             Inl _ \<Rightarrow> None
           | Inr (x, q) \<Rightarrow> Some (s\<lparr>pq := q, in_flight := Some x\<rparr>)))"
| "step Worker_done s =
     (case in_flight s of
        None \<Rightarrow> None
      | Some x \<Rightarrow>
          (case task_done (pq s) of
             Inl _ \<Rightarrow> None
           | Inr q \<Rightarrow> Some (s\<lparr>pq := q, in_flight := None, played := played s @ [x]\<rparr>)))"

fun run :: "'a event list \<Rightarrow> 'a playback \<Rightarrow> 'a playback option" where
  "run [] s = Some s"
| "run (e # es) s = (case step e s of None \<Rightarrow> None | Some s' \<Rightarrow> run es s')"

fun puts :: "'a event list \<Rightarrow> 'a list" where
  "puts [] = []"
| "puts (Put x # es) = x # puts es"
| "puts (e # es) = puts es"

definition playback0 :: "'a playback" where
  "playback0 = \<lparr>pq = \<lparr>queue = [], unfinished_tasks = 0\<rparr>, in_flight = None, played = []\<rparr>"

text \<open>
  \<open>play_random_wake_up_clip\<close>, once a clip is chosen: record
  \<open>already_pending = unfinished_tasks\<close>, enqueue the chunks of the clip, then poll
  until \<open>unfinished_tasks > already_pending\<close> is false.
\<close>

definition wake_up_enqueue :: "'a list \<Rightarrow> 'a playback \<Rightarrow> nat \<times> 'a playback" where
  "wake_up_enqueue chunks s =
     (let already_pending = unfinished_tasks (pq s)
      in (already_pending, s\<lparr>pq := fold put chunks (pq s)\<rparr>))"

definition wake_up_wait_returns :: "nat \<Rightarrow> 'a playback \<Rightarrow> bool" where
  "wake_up_wait_returns already_pending s = (unfinished_tasks (pq s) \<le> already_pending)"

text \<open>
  Every item put so far is played, in flight or still queued, in that order, and
  \<open>unfinished_tasks\<close> counts the last two groups.
\<close>

definition in_flight_list :: "'a playback \<Rightarrow> 'a list" where
  "in_flight_list s = (case in_flight s of None \<Rightarrow> [] | Some x \<Rightarrow> [x])"

definition accounted :: "'a playback \<Rightarrow> 'a list \<Rightarrow> bool" where
  "accounted s xs =
     (played s @ in_flight_list s @ queue (pq s) = xs
      \<and> unfinished_tasks (pq s) = length (in_flight_list s) + length (queue (pq s)))"

section \<open>The playback worker in song mode (audio_playback.py)\<close>

datatype motor_call = Mouth mouth_call | Move_head string | Move_tail_async real

text \<open>
  \<open>move_tail(duration)\<close> runs the tail motor with the default \<open>brake=True\<close>;
  \<open>USE_THIRD_MOTOR\<close> comes from the configuration and is a parameter here.
  \<open>move_tail_async\<close> runs it in a thread, whose writes are applied in program order.
\<close>

definition move_tail :: "bool \<Rightarrow> real \<Rightarrow> gpio \<Rightarrow> gpio" where
  "move_tail USE_THIRD_MOTOR duration g =
     (if USE_THIRD_MOTOR then run_motor TAIL_IN1 TAIL_IN2 DEFAULT_TAIL_SPEED duration True g
      else run_motor HEAD_IN2 HEAD_IN1 DEFAULT_TAIL_SPEED duration True g)"

text \<open>
  The manager object and what the worker reads and writes while it handles one item: the
  movements module, the attributes \<open>playback_queue\<close>, \<open>playback_done_event\<close>,
  \<open>last_played_time\<close>, \<open>head_move_queue\<close>, \<open>beat_length\<close> and \<open>compensate_tail_beats\<close> of
  the manager object, the globals \<open>head_out\<close> and \<open>song_start_time\<close> of module
  audio_playback (a global that has never been assigned is \<open>None\<close>: reading it raises
  NameError), and the locals of \<open>_playback_worker\<close>. The module global
  \<open>head_out\<close> of audio_playback is not the one of movements.
\<close>

datatype playback_item =
    Raw_chunk "nat list"
  | Song_chunk "nat list" "nat list" real
  | Tts_chunk "nat list"
  | Stop_signal

record engine =
  mov :: movements
  playback_queue :: "playback_item py_queue"
  playback_done_event :: bool
  last_played_time :: real
  head_move_queue :: "(real \<times> real) list"
  beat_length :: real
  compensate_tail_beats :: real
  g_head_out :: "bool option"
  song_start_time :: "real option"
  head_move_active :: bool
  head_move_end_time :: real
  drums_peak :: real
  drums_peak_time :: real
  next_beat_time :: real



text \<open>
  Lines 112 to 126: the tail sync of a song item. \<open>drums_peak > 1500 and not head_out\<close>
  reads \<open>head_out\<close> only when the first conjunct holds.
\<close>

definition next_beat :: "engine \<Rightarrow> engine" where
  "next_beat e = e\<lparr>drums_peak := 0, drums_peak_time := 0,
                    next_beat_time := next_beat_time e + beat_length e\<rparr>"

definition beat_sync ::
  "bool \<Rightarrow> real \<Rightarrow> real \<Rightarrow> engine \<Rightarrow> py_error + engine \<times> motor_call list" where
  "beat_sync USE_THIRD_MOTOR now rms_drums e =
     (let e1 = (if drums_peak e < rms_drums
                then e\<lparr>drums_peak := rms_drums, drums_peak_time := now\<rparr> else e)
      in case song_start_time e1 of
           None \<Rightarrow> Inl NameError
         | Some t0 \<Rightarrow>
             let adjusted_now = (now - t0) + compensate_tail_beats e1 * beat_length e1
             in if next_beat_time e1 \<le> adjusted_now
                then (if 1500 < drums_peak e1
                      then (case g_head_out e1 of
                              None \<Rightarrow> Inl NameError
                            | Some ho \<Rightarrow>
                                if ho then Inr (next_beat e1, [])
                                else Inr (next_beat
                                            (e1\<lparr>mov := (mov e1)\<lparr>hw :=
                                                 move_tail USE_THIRD_MOTOR 0.2 (hw (mov e1))\<rparr>\<rparr>),
                                          [Move_tail_async 0.2]))
                      else Inr (next_beat e1, []))
                else Inr (e1, []))"


text \<open>The attributes set by \<open>AudioPlaybackManager.__init__\<close> and a fresh worker.\<close>

definition engine0 :: engine where
  "engine0 = \<lparr>mov = movements0,
               playback_queue = \<lparr>queue = [], unfinished_tasks = 0\<rparr>,
               playback_done_event = False, last_played_time = 0,
               head_move_queue = [], beat_length = 0.5,
               compensate_tail_beats = 0, g_head_out = None, song_start_time = None,
               head_move_active = False, head_move_end_time = 0, drums_peak = 0,
               drums_peak_time = 0, next_beat_time = 0\<rparr>"

text \<open>\<open>stop_playback\<close>: flush the queue, then set the done event.\<close>

definition stop_playback :: "engine \<Rightarrow> engine" where
  "stop_playback e =
     e\<lparr>playback_queue := flush_queue (playback_queue e), playback_done_event := True\<rparr>"

text \<open>
  \<open>reset_for_new_song\<close> clears the two underlying deques (the counter
  \<open>unfinished_tasks\<close> is not touched), clears the done event and restarts the clocks.
\<close>

definition reset_for_new_song :: "real \<Rightarrow> engine \<Rightarrow> engine" where
  "reset_for_new_song now e =
     e\<lparr>playback_queue := (playback_queue e)\<lparr>queue := []\<rparr>,
       head_move_queue := [],
       playback_done_event := False,
       last_played_time := now,
       song_start_time := Some now\<rparr>"

section \<open>Song metadata and the set-up part of play_song (audio.py)\<close>

text \<open>
  The dictionary built by \<open>load_metadata\<close> always has the same six keys, so it is a
  record; the value of \<open>"bpm"\<close> may be Python's \<open>None\<close>.
\<close>

record metadata =
  bpm :: "real option"
  head_moves :: "(real \<times> real) list"
  tail_threshold :: real
  gain :: real
  compensate_tail :: real
  half_tempo_tail_flap :: bool

definition metadata_init :: metadata where
  "metadata_init = \<lparr>bpm = None, head_moves = [], tail_threshold = 1500, gain = 1.0,
                     compensate_tail = 0.0, half_tempo_tail_flap = False\<rparr>"

text \<open>
  A Python \<open>str\<close> is the list of its Unicode code points; \<open>ustr\<close> embeds an ASCII
  literal of the source.
\<close>

type_synonym py_str = "nat list"

definition ustr :: "string \<Rightarrow> py_str" where
  "ustr s = map of_char s"

text \<open>
  The white space of \<open>str.strip()\<close> and of \<open>\s\<close> in a \<open>str\<close> pattern: the 29
  code points for which \<open>str.isspace\<close> holds.
\<close>

definition py_isspace :: "nat \<Rightarrow> bool" where
  "py_isspace c =
     ((9 \<le> c \<and> c \<le> 13) \<or> (28 \<le> c \<and> c \<le> 32) \<or> c = 133 \<or> c = 160 \<or> c = 5760
      \<or> (8192 \<le> c \<and> c \<le> 8202) \<or> c = 8232 \<or> c = 8233 \<or> c = 8239 \<or> c = 8287
      \<or> c = 12288)"

definition py_strip :: "py_str \<Rightarrow> py_str" where
  "py_strip s = rev (dropWhile py_isspace (rev (dropWhile py_isspace s)))"

text \<open>\<open>s.split(sep)\<close> for a separator of one character.\<close>

fun py_split :: "nat \<Rightarrow> py_str \<Rightarrow> py_str list" where
  "py_split c [] = [[]]"
| "py_split c (x # xs) =
     (if x = c then [] # py_split c xs
      else (case py_split c xs of [] \<Rightarrow> [[x]] | w # ws \<Rightarrow> (x # w) # ws))"

text \<open>
  \<open>s.lower() == "true"\<close>. Of all code points only the ASCII letters T, R, U, E and
  t, r, u, e lower to a string that contains one of t, r, u, e, so the comparison
  depends on the ASCII letters alone.
\<close>

definition ascii_lower :: "nat \<Rightarrow> nat" where
  "ascii_lower c = (if 65 \<le> c \<and> c \<le> 90 then c + 32 else c)"

definition lower_is_true :: "py_str \<Rightarrow> bool" where
  "lower_is_true s = (map ascii_lower s = ustr ''true'')"

text \<open>
  Python's \<open>float(str)\<close> is a parameter \<open>pyfloat\<close>: \<open>None\<close> where it raises
  ValueError. One element \<open>start:duration\<close> of \<open>head_moves\<close>:
  \<open>(float(v.split(':')[0]), float(v.split(':')[1]))\<close>.
\<close>

definition parse_head_move :: "(py_str \<Rightarrow> real option) \<Rightarrow> py_str \<Rightarrow> py_error + real \<times> real" where
  "parse_head_move pyfloat v =
     (case py_split (of_char CHR '':'') v of
        [] \<Rightarrow> Inl IndexError
      | a # rest \<Rightarrow>
          (case pyfloat a of
             None \<Rightarrow> Inl ValueError
           | Some x \<Rightarrow>
               (case rest of
                  [] \<Rightarrow> Inl IndexError
                | b # _ \<Rightarrow>
                    (case pyfloat b of
                       None \<Rightarrow> Inl ValueError
                     | Some y \<Rightarrow> Inr (x, y)))))"

fun parse_head_moves :: "(py_str \<Rightarrow> real option) \<Rightarrow> py_str list \<Rightarrow> py_error + (real \<times> real) list" where
  "parse_head_moves pyfloat [] = Inr []"
| "parse_head_moves pyfloat (v # vs) =
     (case parse_head_move pyfloat v of
        Inl err \<Rightarrow> Inl err
      | Inr mv \<Rightarrow>
          (case parse_head_moves pyfloat vs of
             Inl err \<Rightarrow> Inl err
           | Inr mvs \<Rightarrow> Inr (mv # mvs)))"

definition metadata_line :: "(py_str \<Rightarrow> real option) \<Rightarrow> py_str \<Rightarrow> metadata \<Rightarrow> py_error + metadata" where
  "metadata_line pyfloat line md =
     (if of_char CHR ''='' \<in> set line
      then
        let stripped = py_strip line;
            key = takeWhile (\<lambda>c. c \<noteq> of_char CHR ''='') stripped;
            val = drop 1 (dropWhile (\<lambda>c. c \<noteq> of_char CHR ''='') stripped)
        in if key = ustr ''head_moves''
           then (case parse_head_moves pyfloat (py_split (of_char CHR '','') val) of
                   Inl err \<Rightarrow> Inl err
                 | Inr mvs \<Rightarrow> Inr (md\<lparr>head_moves := mvs\<rparr>))
           else if key \<in> set [ustr ''bpm'', ustr ''tail_threshold'', ustr ''gain'',
                               ustr ''compensate_tail'']
           then (case pyfloat (py_strip val) of
                   None \<Rightarrow> Inl ValueError
                 | Some x \<Rightarrow>
                     Inr (if key = ustr ''bpm'' then md\<lparr>bpm := Some x\<rparr>
                          else if key = ustr ''tail_threshold'' then md\<lparr>tail_threshold := x\<rparr>
                          else if key = ustr ''gain'' then md\<lparr>gain := x\<rparr>
                          else md\<lparr>compensate_tail := x\<rparr>))
           else if key = ustr ''half_tempo_tail_flap''
           then Inr (md\<lparr>half_tempo_tail_flap := lower_is_true (py_strip val)\<rparr>)
           else Inr md
      else Inr md)"

fun metadata_lines :: "(py_str \<Rightarrow> real option) \<Rightarrow> py_str list \<Rightarrow> metadata \<Rightarrow> py_error + metadata" where
  "metadata_lines pyfloat [] md = Inr md"
| "metadata_lines pyfloat (line # rest) md =
     (case metadata_line pyfloat line md of
        Inl err \<Rightarrow> Inl err
      | Inr md' \<Rightarrow> metadata_lines pyfloat rest md')"

text \<open>
  \<open>load_metadata(path)\<close>: the file is \<open>None\<close> when \<open>os.path.exists(path)\<close> is
  false and the list of its lines otherwise.
\<close>

definition load_metadata :: "(py_str \<Rightarrow> real option) \<Rightarrow> py_str list option \<Rightarrow> py_error + metadata" where
  "load_metadata pyfloat file =
     (case file of
        None \<Rightarrow> Inr metadata_init
      | Some lines \<Rightarrow> metadata_lines pyfloat lines metadata_init)"

text \<open>
  The globals of module audio that \<open>play_song\<close> assigns. They were bound at import to
  the values of the manager's attributes; assigning them does not change the manager.
\<close>

record audio_globals =
  a_song_mode :: bool
  a_beat_length :: real
  a_compensate_tail_beats :: real

definition audio_globals0 :: audio_globals where
  "audio_globals0 = \<lparr>a_song_mode = False, a_beat_length = 0.5, a_compensate_tail_beats = 0\<rparr>"

text \<open>The locals of \<open>play_song\<close> after its set-up.\<close>

record song_locals =
  GAIN :: real
  BPM :: "real option"
  song_tail_threshold :: real
  song_half_tempo :: bool

text \<open>
  \<open>play_song\<close> from its start to \<open>audio.song_mode = True\<close>. Every key is present in
  the dictionary, so no default of \<open>metadata.get\<close> is ever taken. The division
  \<open>60.0 / BPM\<close> raises TypeError on \<open>None\<close> and ZeroDivisionError on zero; this part
  of \<open>play_song\<close> is outside its \<open>try\<close> block.
\<close>

definition song_beat_length :: "metadata \<Rightarrow> py_error + real" where
  "song_beat_length md =
     (case bpm md of
        None \<Rightarrow> Inl TypeError
      | Some b \<Rightarrow>
          (if b = 0 then Inl ZeroDivisionError
           else Inr (if half_tempo_tail_flap md then 60 / b * 2 else 60 / b)))"

definition play_song_setup ::
  "(py_str \<Rightarrow> real option) \<Rightarrow> real \<Rightarrow> py_str list option \<Rightarrow> engine \<times> audio_globals
     \<Rightarrow> py_error + engine \<times> audio_globals \<times> song_locals" where
  "play_song_setup pyfloat now file st =
     (let e1 = reset_for_new_song now (fst st)
      in (case load_metadata pyfloat file of
            Inl err \<Rightarrow> Inl err
          | Inr md \<Rightarrow>
              (let a1 = (snd st)\<lparr>a_compensate_tail_beats := compensate_tail md\<rparr>;
                   e2 = e1\<lparr>head_move_queue := head_move_queue e1 @ head_moves md\<rparr>
               in (case song_beat_length md of
                     Inl err \<Rightarrow> Inl err
                   | Inr bl \<Rightarrow>
                       Inr (e2, a1\<lparr>a_beat_length := bl, a_song_mode := True\<rparr>,
                            \<lparr>GAIN = gain md, BPM = bpm md,
                             song_tail_threshold = tail_threshold md,
                             song_half_tempo = half_tempo_tail_flap md\<rparr>)))))"

text \<open>
  \<open>play_song\<close> as a whole. After the set-up it starts the worker and calls
  \<open>mqtt_publish("billy/state", STATE_PLAYING_SONG)\<close>; audio.py neither defines nor
  imports \<open>STATE_PLAYING_SONG\<close>, and the call stands before the \<open>try\<close> block. So
  every call ends in an exception before a song chunk is put on the queue; this is the
  exception.
\<close>

definition play_song_raises ::
  "(py_str \<Rightarrow> real option) \<Rightarrow> real \<Rightarrow> py_str list option \<Rightarrow> engine \<times> audio_globals
     \<Rightarrow> py_error" where
  "play_song_raises pyfloat now file st =
     (case play_song_setup pyfloat now file st of
        Inl err \<Rightarrow> err
      | Inr _ \<Rightarrow> NameError)"

section \<open>Response history (audio_playback.py)\<close>

text \<open>
  The file system is a map from paths to file contents; a WAV file is its parameters and
  frames. Failures of the operating system are not modelled.
\<close>

datatype wav = Wav nat nat nat "nat list"

definition RESPONSE_HISTORY_DIR :: string where
  "RESPONSE_HISTORY_DIR = ''sounds/response-history''"

definition DEFAULT_CHANNELS :: nat where "DEFAULT_CHANNELS = 1"
definition DEFAULT_SAMPLE_RATE :: nat where "DEFAULT_SAMPLE_RATE = 24000"

definition path_join :: "string \<Rightarrow> string \<Rightarrow> string" where
  "path_join d f = d @ ''/'' @ f"

text \<open>The decimal rendering of \<open>i\<close> in the f-string \<open>f"response-{i}.wav"\<close>.\<close>

function str_nat :: "nat \<Rightarrow> string" where
  "str_nat n =
     (if n < 10 then [''0123456789'' ! n]
      else str_nat (n div 10) @ [''0123456789'' ! (n mod 10)])"
  by pat_completeness auto
termination
  by (relation "measure (\<lambda>n. n)") auto

definition response_file :: "nat \<Rightarrow> string" where
  "response_file i = ''response-'' @ str_nat i @ ''.wav''"

definition save_audio_to_wav :: "nat list \<Rightarrow> string \<Rightarrow> (string \<rightharpoonup> wav) \<Rightarrow> (string \<rightharpoonup> wav)" where
  "save_audio_to_wav audio_bytes filename fs =
     fs(path_join RESPONSE_HISTORY_DIR filename \<mapsto>
          Wav DEFAULT_CHANNELS 2 DEFAULT_SAMPLE_RATE audio_bytes)"

definition os_replace :: "string \<Rightarrow> string \<Rightarrow> (string \<rightharpoonup> wav) \<Rightarrow> (string \<rightharpoonup> wav)" where
  "os_replace src dst fs = (fs(dst := fs src))(src := None)"

definition rotate_one :: "nat \<Rightarrow> (string \<rightharpoonup> wav) \<Rightarrow> (string \<rightharpoonup> wav)" where
  "rotate_one i fs =
     (let src = path_join RESPONSE_HISTORY_DIR (response_file i);
          dst = path_join RESPONSE_HISTORY_DIR (response_file (i + 1))
      in if fs src = None then fs else os_replace src dst fs)"

text \<open>\<open>range(2, 0, -1)\<close> is 2, 1.\<close>

definition rotate_and_save_response_audio :: "nat list \<Rightarrow> (string \<rightharpoonup> wav) \<Rightarrow> (string \<rightharpoonup> wav)" where
  "rotate_and_save_response_audio audio_bytes fs =
     save_audio_to_wav audio_bytes ''response-1.wav'' (fold rotate_one [2, 1] fs)"

definition response_path :: "nat \<Rightarrow> string" where
  "response_path i = path_join RESPONSE_HISTORY_DIR (response_file i)"

section \<open>The session (session.py)\<close>

subsection \<open>update_personality function calls\<close>

text \<open>
  A value of the decoded JSON object of arguments. \<open>isinstance(val, int)\<close> holds for
  Python ints and, as \<open>bool\<close> is a subclass of \<open>int\<close>, for booleans.
\<close>

datatype json = JNull | JBool bool | JInt int | JFloat real | JStr string | JCompound

fun isinstance_int :: "json \<Rightarrow> bool" where
  "isinstance_int (JInt _) = True"
| "isinstance_int (JBool _) = True"
| "isinstance_int _ = False"

text \<open>
  \<open>PERSONALITY\<close> is an object: a map from attribute names to values. \<open>persisted\<close>
  lists the calls of \<open>update_persona_ini\<close>.
\<close>

record personality_state =
  PERSONALITY :: "string \<rightharpoonup> json"
  persisted :: "(string \<times> json) list"

fun apply_updates ::
  "(string \<times> json) list \<Rightarrow> personality_state \<Rightarrow> personality_state \<times> (string \<times> json) list" where
  "apply_updates [] p = (p, [])"
| "apply_updates ((trait, val) # rest) p =
     (if PERSONALITY p trait \<noteq> None \<and> isinstance_int val
      then (case apply_updates rest
                   (p\<lparr>PERSONALITY := (PERSONALITY p)(trait \<mapsto> val),
                      persisted := persisted p @ [(trait, val)]\<rparr>) of
              (p', changes) \<Rightarrow> (p', (trait, val) # changes))
      else apply_updates rest p)"

subsection \<open>post_response_handling\<close>










section \<open>Facts about the mouth sync\<close>

lemma smoothed_rms_eq: "smoothed_rms r m = r"
  by (simp add: smoothed_rms_def)

text \<open>
  C9. For the empty chunk the function returns at once: no motor call, and the module
  state (GPIO store, last-flap time, mouth-open deadline, smoothed-RMS memory) is the
  one it was called with.
\<close>

theorem flap_empty_chunk_noop:
  "flap_from_pcm_chunk np_rms m now [] threshold min_flap_gap chunk_ms = (m, [])"
  by (simp add: flap_from_pcm_chunk_def)

text \<open>
  C7. A non-empty chunk whose smoothed RMS is below half the threshold, arriving when no
  open-mouth window is active (the clock is at or past \<open>_mouth_open_until\<close>), makes
  exactly one call, \<open>stop_mouth\<close>, which brakes the mouth channel; no drive call.
  The smoothed RMS is the one the code has computed from numpy's value for the chunk.
\<close>

theorem flap_quiet_brakes_mouth:
  assumes "audio \<noteq> []"
    and "smoothed_rms (np_rms audio) m < threshold / 2"
    and "mouth_open_until m \<le> now"
  shows "snd (flap_from_pcm_chunk np_rms m now audio threshold min_flap_gap chunk_ms)
           = [Stop_mouth]
       \<and> hw (fst (flap_from_pcm_chunk np_rms m now audio threshold min_flap_gap chunk_ms))
           = stop_mouth (hw m)"
  using assms by (simp add: flap_from_pcm_chunk_def Let_def)

text \<open>
  The chunk of the two samples 100 and -100: both squares are 10000, and 10000, their
  sum 20000 and the root 100 are \<open>float32\<close> numbers, so numpy's RMS is 100.
\<close>

theorem flap_quiet_brakes_mouth_witness:
  "[100, - 100] \<noteq> ([] :: pcm)
   \<and> smoothed_rms ((\<lambda>a. if a = [100, - 100] then 100 else 0) ([100, - 100] :: pcm)) movements0
       < 1500 / 2
   \<and> mouth_open_until movements0 \<le> 5
   \<and> snd (flap_from_pcm_chunk (\<lambda>a. if a = [100, - 100] then 100 else 0) movements0 5
             [100, - 100] 1500 0.1 40) = [Stop_mouth]
   \<and> hw (fst (flap_from_pcm_chunk (\<lambda>a. if a = [100, - 100] then 100 else 0) movements0 5
                 [100, - 100] 1500 0.1 40)) = stop_mouth (hw movements0)"
proof -
  let ?rms = "\<lambda>a :: pcm. if a = [100, - 100] then 100 else (0 :: real)"
  have a: "[100, - 100] \<noteq> ([] :: pcm)" by simp
  have b: "smoothed_rms (?rms [100, - 100]) movements0 < 1500 / 2"
    by (simp add: smoothed_rms_eq)
  have c: "mouth_open_until movements0 \<le> 5" by (simp add: movements0_def)
  from flap_quiet_brakes_mouth [of "[100, - 100]" ?rms movements0 1500 5 "0.1" 40, OF a b c]
    a b c
  show ?thesis by simp
qed

lemma flap_no_drive_up_to_threshold:
  assumes "audio \<noteq> []" and "np_rms audio \<le> threshold"
  shows "snd (flap_from_pcm_chunk np_rms m now audio threshold min_flap_gap chunk_ms)
           = (if np_rms audio < threshold / 2 \<and> mouth_open_until m \<le> now
              then [Stop_mouth] else [])"
  using assms by (simp add: flap_from_pcm_chunk_def Let_def smoothed_rms_eq)

text \<open>
  C2, as amended. With threshold 1500 and the minimum gap elapsed, a non-empty chunk
  whose RMS is at most the threshold, as it is at normalised RMS 0.005, gets no drive
  call: the mouth is braked when the RMS is below 750 and no open-mouth window is active,
  and nothing is done otherwise. A chunk whose normalised RMS is at least 0.15 gets
  exactly one non-braking drive call at 100 percent whose duration is 70 ms clamped down
  to \<open>chunk_ms\<close>.
\<close>

theorem flap_threshold_1500:
  assumes "audio \<noteq> []"
    and "min_flap_gap \<le> now - last_flap m"
  shows "(np_rms audio \<le> 1500 \<longrightarrow>
            snd (flap_from_pcm_chunk np_rms m now audio 1500 min_flap_gap chunk_ms)
              = (if np_rms audio < 750 \<and> mouth_open_until m \<le> now
                 then [Stop_mouth] else []))
       \<and> (0.15 \<le> np_rms audio / 32768 \<longrightarrow>
            snd (flap_from_pcm_chunk np_rms m now audio 1500 min_flap_gap chunk_ms)
              = [Move_mouth 100 (min 70 chunk_ms / 1000) False])"
proof (intro conjI impI)
  assume "np_rms audio \<le> 1500"
  with assms show "snd (flap_from_pcm_chunk np_rms m now audio 1500 min_flap_gap chunk_ms)
              = (if np_rms audio < 750 \<and> mouth_open_until m \<le> now then [Stop_mouth] else [])"
    by (simp add: flap_from_pcm_chunk_def Let_def smoothed_rms_eq)
next
  assume h: "0.15 \<le> np_rms audio / 32768"
  then have r: "4915.2 \<le> np_rms audio" by simp
  define n where "n = np_clip (np_rms audio / 32768) 0 1"
  have n: "0.15 \<le> n"
    using h by (simp add: n_def np_clip_def)
  have i1: "np_interp n 0.005 0.15 25 100 = 100"
    using n by (simp add: np_interp_def)
  have i2: "np_interp n 0.005 0.15 15 70 = 70"
    using n by (simp add: np_interp_def)
  have sp: "py_int (np_clip (np_interp n 0.005 0.15 25 100) 25 100) = 100"
    unfolding i1 by (simp add: np_clip_def py_int_def)
  have du: "np_clip (np_interp n 0.005 0.15 15 70) 15 chunk_ms = min 70 chunk_ms"
    unfolding i2 by (simp add: np_clip_def)
  have br: "\<not> (np_rms audio < 1500 / 2 \<and> mouth_open_until m \<le> now)"
    and th: "\<not> (np_rms audio \<le> 1500 \<or> now - last_flap m < min_flap_gap)"
    using assms r by simp_all
  show "snd (flap_from_pcm_chunk np_rms m now audio 1500 min_flap_gap chunk_ms)
              = [Move_mouth 100 (min 70 chunk_ms / 1000) False]"
    using assms(1) br th sp du
    by (simp add: flap_from_pcm_chunk_def Let_def smoothed_rms_eq flip: n_def)
qed

text \<open>
  Constant chunks of two samples. At amplitude 164 the square 26896, the sum 53792 and
  the root 164 are \<open>float32\<close> numbers, and so are 24167056, 48334112 and 4916 at
  amplitude 4916: numpy's RMS is the amplitude. They are the 16-bit amplitudes next
  above 0.005 and 0.15 times 32768.
\<close>

theorem flap_threshold_1500_witness:
  "replicate 2 164 \<noteq> ([] :: pcm)
   \<and> (0.1 :: real) \<le> 10 - last_flap movements0
   \<and> (\<lambda>a :: pcm. if a = replicate 2 164 then 164 else (0 :: real)) (replicate 2 164) \<le> 1500
   \<and> snd (flap_from_pcm_chunk (\<lambda>a. if a = replicate 2 164 then 164 else 0) movements0 10
             (replicate 2 164) 1500 0.1 40) = [Stop_mouth]
   \<and> replicate 2 4916 \<noteq> ([] :: pcm)
   \<and> 0.15 \<le> (\<lambda>a :: pcm. if a = replicate 2 4916 then 4916 else (0 :: real)) (replicate 2 4916)
                / 32768
   \<and> snd (flap_from_pcm_chunk (\<lambda>a. if a = replicate 2 4916 then 4916 else 0) movements0 10
             (replicate 2 4916) 1500 0.1 40) = [Move_mouth 100 (40 / 1000) False]"
proof -
  let ?lo = "\<lambda>a :: pcm. if a = replicate 2 164 then 164 else (0 :: real)"
  let ?hi = "\<lambda>a :: pcm. if a = replicate 2 4916 then 4916 else (0 :: real)"
  have a: "replicate 2 164 \<noteq> ([] :: pcm)" by simp
  have a': "replicate 2 4916 \<noteq> ([] :: pcm)" by simp
  have g: "(0.1 :: real) \<le> 10 - last_flap movements0" by (simp add: movements0_def)
  have r: "?lo (replicate 2 164) \<le> 1500" by simp
  have r': "0.15 \<le> ?hi (replicate 2 4916) / 32768" by simp
  have o: "mouth_open_until movements0 \<le> 10" by (simp add: movements0_def)
  from flap_threshold_1500 [of "replicate 2 164" "0.1" 10 movements0 ?lo 40, OF a g] r o
  have 1: "snd (flap_from_pcm_chunk ?lo movements0 10 (replicate 2 164) 1500 0.1 40)
             = [Stop_mouth]"
    by simp
  from flap_threshold_1500 [of "replicate 2 4916" "0.1" 10 movements0 ?hi 40, OF a' g] r'
  have 2: "snd (flap_from_pcm_chunk ?hi movements0 10 (replicate 2 4916) 1500 0.1 40)
             = [Move_mouth 100 (40 / 1000) False]"
    by simp
  from a a' g r r' 1 2 show ?thesis by blast
qed

text \<open>
  The claim as stated fails at the 16-bit chunks nearest to it. The constant chunk of
  amplitude 164 (normalised RMS 0.005005; numpy's RMS is 164) gets a brake and not a
  drive call at 25 percent for 15 ms, with threshold 1500 and the gap elapsed. The
  constant chunk of amplitude 4915 (normalised RMS 0.149994; the square rounds to
  24157224 in \<open>float32\<close> and the root back to 4915) gets a drive call at 99 percent,
  not 100.
\<close>

theorem flap_normalized_nodes_counterexample:
  "replicate 2 164 \<noteq> ([] :: pcm)
   \<and> (0.1 :: real) \<le> 10 - last_flap movements0
   \<and> snd (flap_from_pcm_chunk (\<lambda>a. if a = replicate 2 164 then 164 else 0) movements0 10
             (replicate 2 164) 1500 0.1 40) = [Stop_mouth]
   \<and> snd (flap_from_pcm_chunk (\<lambda>a. if a = replicate 2 164 then 164 else 0) movements0 10
             (replicate 2 164) 1500 0.1 40) \<noteq> [Move_mouth 25 (15 / 1000) False]
   \<and> replicate 2 4915 \<noteq> ([] :: pcm)
   \<and> snd (flap_from_pcm_chunk (\<lambda>a. if a = replicate 2 4915 then 4915 else 0) movements0 10
             (replicate 2 4915) 1500 0.1 40) = [Move_mouth 99 (40 / 1000) False]"
  by (simp add: flap_from_pcm_chunk_def Let_def smoothed_rms_eq movements0_def np_clip_def
      np_interp_def py_int_def)

section \<open>Braking and stopping\<close>

lemma brake_motor_twice: "brake_motor p1 p2 (brake_motor p1 p2 g) = brake_motor p1 p2 g"
  by (simp add: brake_motor_def tx_pwm_def gpio_write_def)

lemma brake_motor_braked:
  "pwm_duty g p1 = 0 \<Longrightarrow> pwm_duty g p2 = 0 \<Longrightarrow> level g p1 = 0 \<Longrightarrow> level g p2 = 0
   \<Longrightarrow> brake_motor p1 p2 g = g"
  by (simp add: brake_motor_def tx_pwm_def gpio_write_def fun_upd_idem)

lemma stop_playback_empty:
  "queue_empty (playback_queue e) \<Longrightarrow> playback_queue (stop_playback e) = playback_queue e"
  by (simp add: stop_playback_def flush_queue_def queue_empty_def)

text \<open>
  C8. Braking is idempotent: \<open>brake_motor\<close>, \<open>stop_mouth\<close> and
  \<open>move_head("off")\<close> applied twice equal one application, and on a channel that is
  already braked they change nothing. \<open>stop_playback\<close> on an empty queue leaves the
  queue as it is, empty, and a second call changes nothing more. None of them has an
  error branch.
\<close>

theorem brake_and_stop_idempotent:
  "brake_motor p1 p2 (brake_motor p1 p2 g) = brake_motor p1 p2 g
   \<and> stop_mouth (stop_mouth g) = stop_mouth g
   \<and> move_head ''off'' (move_head ''off'' m) = move_head ''off'' m
   \<and> (pwm_duty g p1 = 0 \<and> pwm_duty g p2 = 0 \<and> level g p1 = 0 \<and> level g p2 = 0
        \<longrightarrow> brake_motor p1 p2 g = g)
   \<and> (pwm_duty g MOUTH_IN1 = 0 \<and> pwm_duty g MOUTH_IN2 = 0
        \<and> level g MOUTH_IN1 = 0 \<and> level g MOUTH_IN2 = 0 \<longrightarrow> stop_mouth g = g)
   \<and> (pwm_duty (hw m) HEAD_IN1 = 0 \<and> pwm_duty (hw m) HEAD_IN2 = 0
        \<and> level (hw m) HEAD_IN1 = 0 \<and> level (hw m) HEAD_IN2 = 0 \<and> \<not> head_out m
        \<longrightarrow> move_head ''off'' m = m)
   \<and> (queue_empty (playback_queue e)
        \<longrightarrow> queue_empty (playback_queue (stop_playback e))
            \<and> playback_queue (stop_playback e) = playback_queue e
            \<and> stop_playback (stop_playback e) = stop_playback e)"
  by (auto simp add: brake_motor_twice brake_motor_braked stop_mouth_def move_head_def
      stop_playback_def flush_queue_def queue_empty_def)

theorem brake_and_stop_idempotent_witness:
  "pwm_duty gpio0 MOUTH_IN1 = 0 \<and> pwm_duty gpio0 MOUTH_IN2 = 0
   \<and> level gpio0 MOUTH_IN1 = 0 \<and> level gpio0 MOUTH_IN2 = 0
   \<and> pwm_duty (hw movements0) HEAD_IN1 = 0 \<and> pwm_duty (hw movements0) HEAD_IN2 = 0
   \<and> level (hw movements0) HEAD_IN1 = 0 \<and> level (hw movements0) HEAD_IN2 = 0
   \<and> \<not> head_out movements0
   \<and> queue_empty (playback_queue engine0)
   \<and> brake_motor MOUTH_IN1 MOUTH_IN2 gpio0 = gpio0
   \<and> stop_mouth gpio0 = gpio0
   \<and> move_head ''off'' movements0 = movements0
   \<and> queue_empty (playback_queue (stop_playback engine0))
   \<and> stop_playback (stop_playback engine0) = stop_playback engine0"
  using brake_and_stop_idempotent [of MOUTH_IN1 MOUTH_IN2 gpio0 movements0 engine0]
  by (simp add: gpio0_def movements0_def engine0_def queue_empty_def)

section \<open>Rotation of the response history\<close>

lemma response_path_1: "response_path 1 = ''sounds/response-history/response-1.wav''"
  by (simp add: response_path_def path_join_def RESPONSE_HISTORY_DIR_def response_file_def)

lemma response_path_2: "response_path 2 = ''sounds/response-history/response-2.wav''"
  by (simp add: response_path_def path_join_def RESPONSE_HISTORY_DIR_def response_file_def)

lemma response_path_3: "response_path 3 = ''sounds/response-history/response-3.wav''"
  by (simp add: response_path_def path_join_def RESPONSE_HISTORY_DIR_def response_file_def)

lemma rotate_one_alt:
  "rotate_one i fs =
     (if fs (response_path i) = None then fs
      else os_replace (response_path i) (response_path (i + 1)) fs)"
  by (simp add: rotate_one_def response_path_def Let_def)

lemma rotate_one_2:
  "rotate_one 2 fs =
     (if fs (response_path 2) = None then fs
      else os_replace (response_path 2) (response_path 3) fs)"
  using rotate_one_alt [of 2 fs] by simp

lemma rotate_one_1:
  "rotate_one 1 fs =
     (if fs (response_path 1) = None then fs
      else os_replace (response_path 1) (response_path 2) fs)"
proof -
  have "(1::nat) + 1 = 2" by simp
  then show ?thesis using rotate_one_alt [of 1 fs] by (simp only:)
qed

lemma save_response_1:
  "save_audio_to_wav a ''response-1.wav'' fs = fs(response_path 1 \<mapsto> Wav 1 2 24000 a)"
  unfolding response_path_1
  by (simp add: save_audio_to_wav_def path_join_def RESPONSE_HISTORY_DIR_def
      DEFAULT_CHANNELS_def DEFAULT_SAMPLE_RATE_def)

lemma rotate_unfold:
  "rotate_and_save_response_audio a fs
     = (rotate_one 1 (rotate_one 2 fs))(response_path 1 \<mapsto> Wav 1 2 24000 a)"
  unfolding rotate_and_save_response_audio_def save_response_1 by simp

lemma paths_distinct:
  "response_path 1 \<noteq> response_path 2" "response_path 1 \<noteq> response_path 3"
  "response_path 2 \<noteq> response_path 3" "response_path 2 \<noteq> response_path 1"
  "response_path 3 \<noteq> response_path 1" "response_path 3 \<noteq> response_path 2"
  unfolding response_path_1 response_path_2 response_path_3 by simp_all

lemma rotate_at_1:
  "rotate_and_save_response_audio a fs (response_path 1) = Some (Wav 1 2 24000 a)"
  unfolding rotate_unfold by simp

lemma rotate_at_2:
  "rotate_and_save_response_audio a fs (response_path 2) = fs (response_path 1)"
  unfolding rotate_unfold rotate_one_1 rotate_one_2
  using paths_distinct by (auto simp add: os_replace_def)

lemma rotate_at_3:
  "rotate_and_save_response_audio a fs (response_path 3)
     = (if fs (response_path 2) = None then fs (response_path 3) else fs (response_path 2))"
  unfolding rotate_unfold rotate_one_1 rotate_one_2
  using paths_distinct by (auto simp add: os_replace_def)

lemma rotate_elsewhere:
  "p \<noteq> response_path 1 \<Longrightarrow> p \<noteq> response_path 2 \<Longrightarrow> p \<noteq> response_path 3
   \<Longrightarrow> rotate_and_save_response_audio a fs p = fs p"
  unfolding rotate_unfold rotate_one_1 rotate_one_2
  by (auto simp add: os_replace_def)

lemma rotate_dom:
  assumes d: "dom fs \<subseteq> {response_path 1, response_path 2, response_path 3}"
  shows "dom (rotate_and_save_response_audio a fs)
       \<subseteq> {response_path 1, response_path 2, response_path 3}"
proof
  fix p
  assume p: "p \<in> dom (rotate_and_save_response_audio a fs)"
  show "p \<in> {response_path 1, response_path 2, response_path 3}"
  proof (rule ccontr)
    assume n: "p \<notin> {response_path 1, response_path 2, response_path 3}"
    then have "rotate_and_save_response_audio a fs p = fs p"
      using rotate_elsewhere [of p a fs] by blast
    with p have "p \<in> dom fs" by (simp add: dom_def)
    with d n show False by blast
  qed
qed

lemma rotate_seq_dom:
  "dom fs \<subseteq> {response_path 1, response_path 2, response_path 3}
   \<Longrightarrow> dom (fold rotate_and_save_response_audio as fs)
       \<subseteq> {response_path 1, response_path 2, response_path 3}"
proof (induction as arbitrary: fs)
  case Nil
  then show ?case by simp
next
  case (Cons a as)
  from Cons.prems have "dom (rotate_and_save_response_audio a fs)
       \<subseteq> {response_path 1, response_path 2, response_path 3}"
    by (rule rotate_dom)
  then show ?case using Cons.IH by simp
qed

lemma card_three: "A \<subseteq> {x, y, z} \<Longrightarrow> card A \<le> 3"
proof -
  assume "A \<subseteq> {x, y, z}"
  then have "card A \<le> card {x, y, z}" by (intro card_mono) simp_all
  also have "\<dots> \<le> 3" by (simp add: card_insert_if)
  finally show ?thesis .
qed

text \<open>
  C10. After \<open>rotate_and_save_response_audio\<close>, response-1.wav holds the new audio,
  response-2.wav is what response-1.wav was (absent if there was none), response-3.wav is
  what response-2.wav was if that existed and is left alone otherwise, and every other
  path is untouched. So a history directory that holds nothing but these three files
  still holds at most three files after any sequence of calls.
\<close>

theorem rotate_keeps_three:
  "rotate_and_save_response_audio a fs (response_path 1) = Some (Wav 1 2 24000 a)
   \<and> rotate_and_save_response_audio a fs (response_path 2) = fs (response_path 1)
   \<and> rotate_and_save_response_audio a fs (response_path 3)
       = (if fs (response_path 2) = None then fs (response_path 3) else fs (response_path 2))
   \<and> (\<forall>p. p \<notin> {response_path 1, response_path 2, response_path 3}
         \<longrightarrow> rotate_and_save_response_audio a fs p = fs p)
   \<and> (dom fs \<subseteq> {response_path 1, response_path 2, response_path 3}
         \<longrightarrow> dom (fold rotate_and_save_response_audio as fs)
               \<subseteq> {response_path 1, response_path 2, response_path 3}
             \<and> card (dom (fold rotate_and_save_response_audio as fs)) \<le> 3)"
proof (intro conjI allI impI)
  show "rotate_and_save_response_audio a fs (response_path 1) = Some (Wav 1 2 24000 a)"
    by (rule rotate_at_1)
  show "rotate_and_save_response_audio a fs (response_path 2) = fs (response_path 1)"
    by (rule rotate_at_2)
  show "rotate_and_save_response_audio a fs (response_path 3)
       = (if fs (response_path 2) = None then fs (response_path 3) else fs (response_path 2))"
    by (rule rotate_at_3)
next
  fix p assume "p \<notin> {response_path 1, response_path 2, response_path 3}"
  then show "rotate_and_save_response_audio a fs p = fs p"
    using rotate_elsewhere [of p a fs] by blast
next
  assume d: "dom fs \<subseteq> {response_path 1, response_path 2, response_path 3}"
  then show s: "dom (fold rotate_and_save_response_audio as fs)
               \<subseteq> {response_path 1, response_path 2, response_path 3}"
    by (rule rotate_seq_dom)
  then show "card (dom (fold rotate_and_save_response_audio as fs)) \<le> 3"
    by (rule card_three)
qed

theorem rotate_keeps_three_witness:
  "''x'' \<notin> {response_path 1, response_path 2, response_path 3}
   \<and> rotate_and_save_response_audio [7] Map.empty ''x'' = None
   \<and> dom (Map.empty :: string \<rightharpoonup> wav) \<subseteq> {response_path 1, response_path 2, response_path 3}
   \<and> card (dom (fold rotate_and_save_response_audio [[1], [2], [3], [4]] Map.empty)) \<le> 3
   \<and> fold rotate_and_save_response_audio [[1], [2], [3], [4]] Map.empty (response_path 1)
       = Some (Wav 1 2 24000 [4])"
proof -
  have x: "''x'' \<notin> {response_path 1, response_path 2, response_path 3}"
    unfolding response_path_1 response_path_2 response_path_3 by simp
  have d: "dom (Map.empty :: string \<rightharpoonup> wav) \<subseteq> {response_path 1, response_path 2, response_path 3}"
    by simp
  have f: "fold rotate_and_save_response_audio [[1], [2], [3], [4]] Map.empty
      = rotate_and_save_response_audio [4]
          (fold rotate_and_save_response_audio [[1], [2], [3]] Map.empty)"
    by simp
  from rotate_keeps_three [of "[7]" Map.empty "[[1], [2], [3], [4]]"] x d
  have 1: "rotate_and_save_response_audio [7] Map.empty ''x'' = None"
    and 2: "card (dom (fold rotate_and_save_response_audio [[1], [2], [3], [4]] Map.empty)) \<le> 3"
    by auto
  from rotate_keeps_three [of "[4]" "fold rotate_and_save_response_audio [[1], [2], [3]] Map.empty" "[]"]
  have 3: "fold rotate_and_save_response_audio [[1], [2], [3], [4]] Map.empty (response_path 1)
       = Some (Wav 1 2 24000 [4])"
    unfolding f by blast
  from x d 1 2 3 show ?thesis by blast
qed

section \<open>The follow-up decision of the session\<close>








section \<open>Personality updates\<close>

text \<open>
  C6 at the input \<open>{"humor": 150}\<close>: the value is an int and the trait exists, so it is
  set and persisted although it is outside 0..100.
\<close>

theorem update_personality_out_of_range:
  "PERSONALITY (fst (apply_updates [(''humor'', JInt 150)]
       \<lparr>PERSONALITY = [''humor'' \<mapsto> JInt 50], persisted = []\<rparr>)) ''humor'' = Some (JInt 150)
   \<and> persisted (fst (apply_updates [(''humor'', JInt 150)]
       \<lparr>PERSONALITY = [''humor'' \<mapsto> JInt 50], persisted = []\<rparr>)) = [(''humor'', JInt 150)]
   \<and> snd (apply_updates [(''humor'', JInt 150)]
       \<lparr>PERSONALITY = [''humor'' \<mapsto> JInt 50], persisted = []\<rparr>) = [(''humor'', JInt 150)]"
  by simp


section \<open>Song set-up\<close>

text \<open>
  C4 at a song directory without metadata.txt: \<open>load_metadata\<close> returns its initial
  dictionary, whose \<open>bpm\<close> is \<open>None\<close>, and \<open>60.0 / BPM\<close> raises TypeError.
\<close>

theorem play_song_without_metadata_raises:
  "load_metadata pyfloat None = Inr metadata_init
   \<and> bpm metadata_init = None
   \<and> play_song_setup pyfloat now None (e, a) = Inl TypeError"
  by (simp add: load_metadata_def metadata_init_def play_song_setup_def song_beat_length_def
      Let_def)

section \<open>Draining the playback queue\<close>

lemma step_accounted:
  assumes "step e s = Some s'" and "accounted s xs"
  shows "accounted s' (xs @ puts [e])"
proof (cases e)
  case (Put x)
  with assms show ?thesis
    by (auto simp add: accounted_def put_def in_flight_list_def)
next
  case Worker_get
  with assms show ?thesis
    by (auto simp add: accounted_def get_nowait_def in_flight_list_def
        split: option.splits list.splits)
next
  case Worker_done
  with assms show ?thesis
    by (auto simp add: accounted_def task_done_def in_flight_list_def
        split: option.splits if_splits)
qed

lemma puts_Cons: "puts (e # es) = puts [e] @ puts es"
  by (cases e) simp_all

lemma run_accounted:
  "run es s = Some s' \<Longrightarrow> accounted s xs \<Longrightarrow> accounted s' (xs @ puts es)"
proof (induction es arbitrary: s xs)
  case Nil
  then show ?case by simp
next
  case (Cons e es)
  from Cons.prems(1) obtain s1 where s1: "step e s = Some s1" and r: "run es s1 = Some s'"
    by (auto split: option.splits)
  from s1 Cons.prems(2) have "accounted s1 (xs @ puts [e])" by (rule step_accounted)
  with r have "accounted s' ((xs @ puts [e]) @ puts es)" by (rule Cons.IH)
  then show ?case using puts_Cons [of e es] by simp
qed

text \<open>
  \<open>Queue.join\<close>: whatever the interleaving of producers and worker, when
  \<open>unfinished_tasks\<close> is zero every item put so far has been played, in FIFO order.
\<close>

lemma join_returns_after_all_played:
  assumes "run es playback0 = Some s" and "join_returns (pq s)"
  shows "played s = puts es \<and> queue (pq s) = [] \<and> in_flight s = None"
proof -
  have "accounted (playback0 :: 'a playback) []"
    by (simp add: accounted_def playback0_def in_flight_list_def)
  with assms(1) have "accounted s ([] @ puts es)" by (rule run_accounted)
  with assms(2) show ?thesis
    by (auto simp add: accounted_def join_returns_def in_flight_list_def split: option.splits)
qed

text \<open>
  C1 at a queue that still holds one chunk when \<open>play_random_wake_up_clip\<close> is
  called with a clip of one chunk: \<open>already_pending\<close> is 1, and once the worker has
  played the older chunk the poll \<open>unfinished_tasks > already_pending\<close> is false, so
  the wait returns while the chunk of the clip is still in the queue, not played.
\<close>

theorem wake_up_wait_returns_before_clip_played:
  "(case run [Put (1::nat)] playback0 of
      None \<Rightarrow> False
    | Some s1 \<Rightarrow>
        (case wake_up_enqueue [2] s1 of
           (already_pending, s2) \<Rightarrow>
             (case run [Worker_get, Worker_done] s2 of
                None \<Rightarrow> False
              | Some s3 \<Rightarrow>
                  already_pending = 1
                  \<and> wake_up_wait_returns already_pending s3
                  \<and> played s3 = [1]
                  \<and> queue (pq s3) = [2]
                  \<and> 2 \<notin> set (played s3))))"
  by (simp add: playback0_def put_def wake_up_enqueue_def get_nowait_def task_done_def
      wake_up_wait_returns_def Let_def)


section \<open>Tail sync on the beat\<close>

lemma play_song_setup_raises:
  "play_song_setup pyfloat now file st = Inr x \<Longrightarrow> play_song_raises pyfloat now file st = NameError"
  by (simp add: play_song_raises_def)

lemma beat_sync_crossing:
  assumes "song_start_time e = Some t0" and "g_head_out e = Some ho"
    and "next_beat_time e \<le> (now - t0) + compensate_tail_beats e * beat_length e"
  shows "\<exists>e'. beat_sync third now rms_drums e
                 = Inr (e', if 1500 < max (drums_peak e) rms_drums \<and> \<not> ho
                            then [Move_tail_async 0.2] else [])
              \<and> drums_peak e' = 0
              \<and> next_beat_time e' = next_beat_time e + beat_length e"
  using assms by (auto simp add: beat_sync_def next_beat_def Let_def max_def)



end
